theory Spec2Isabelle
  imports Complex_Main
begin

section \<open>JavaScript numbers\<close>

text \<open>
  A JavaScript \<open>number\<close> is either a finite value, one of the two infinities, or NaN.
  Finite values are kept as exact rationals: every finite double is a rational, and the
  arithmetic below is the exact one, so the rounding of binary64 operations and the sign
  of zero are not part of this model. The special values follow IEEE-754 as JavaScript
  exposes them (\<open>Infinity - Infinity\<close>, \<open>0 * Infinity\<close> and \<open>0 / 0\<close> are NaN, a non-zero
  value divided by zero is an infinity, a finite value divided by an infinity is zero).
\<close>

datatype jsnum = Finite rat | PosInf | NegInf | NaN

fun js_neg :: "jsnum \<Rightarrow> jsnum" where
  "js_neg (Finite a) = Finite (- a)"
| "js_neg PosInf = NegInf"
| "js_neg NegInf = PosInf"
| "js_neg NaN = NaN"

fun js_add :: "jsnum \<Rightarrow> jsnum \<Rightarrow> jsnum" where
  "js_add (Finite a) (Finite b) = Finite (a + b)"
| "js_add (Finite a) PosInf = PosInf"
| "js_add (Finite a) NegInf = NegInf"
| "js_add PosInf (Finite b) = PosInf"
| "js_add PosInf PosInf = PosInf"
| "js_add PosInf NegInf = NaN"
| "js_add NegInf (Finite b) = NegInf"
| "js_add NegInf PosInf = NaN"
| "js_add NegInf NegInf = NegInf"
| "js_add NaN b = NaN"
| "js_add a NaN = NaN"

definition js_sub :: "jsnum \<Rightarrow> jsnum \<Rightarrow> jsnum" where
  "js_sub a b = js_add a (js_neg b)"

fun js_mul :: "jsnum \<Rightarrow> jsnum \<Rightarrow> jsnum" where
  "js_mul (Finite a) (Finite b) = Finite (a * b)"
| "js_mul (Finite a) PosInf = (if a = 0 then NaN else if 0 < a then PosInf else NegInf)"
| "js_mul (Finite a) NegInf = (if a = 0 then NaN else if 0 < a then NegInf else PosInf)"
| "js_mul PosInf (Finite b) = (if b = 0 then NaN else if 0 < b then PosInf else NegInf)"
| "js_mul NegInf (Finite b) = (if b = 0 then NaN else if 0 < b then NegInf else PosInf)"
| "js_mul PosInf PosInf = PosInf"
| "js_mul PosInf NegInf = NegInf"
| "js_mul NegInf PosInf = NegInf"
| "js_mul NegInf NegInf = PosInf"
| "js_mul NaN b = NaN"
| "js_mul a NaN = NaN"

text \<open>
  Division. A zero divisor is taken as \<open>+0\<close>: the engine only divides by a sample count
  and by a sum of two absolute values, neither of which is \<open>-0\<close>.
\<close>

fun js_div :: "jsnum \<Rightarrow> jsnum \<Rightarrow> jsnum" where
  "js_div (Finite a) (Finite b) =
     (if b = 0 then (if a = 0 then NaN else if 0 < a then PosInf else NegInf)
      else Finite (a / b))"
| "js_div (Finite a) PosInf = Finite 0"
| "js_div (Finite a) NegInf = Finite 0"
| "js_div PosInf (Finite b) = (if 0 \<le> b then PosInf else NegInf)"
| "js_div NegInf (Finite b) = (if 0 \<le> b then NegInf else PosInf)"
| "js_div PosInf PosInf = NaN"
| "js_div PosInf NegInf = NaN"
| "js_div NegInf PosInf = NaN"
| "js_div NegInf NegInf = NaN"
| "js_div NaN b = NaN"
| "js_div a NaN = NaN"

text \<open>\<open>Math.abs\<close> and \<open>Math.sign\<close>.\<close>

fun js_abs :: "jsnum \<Rightarrow> jsnum" where
  "js_abs (Finite a) = Finite \<bar>a\<bar>"
| "js_abs PosInf = PosInf"
| "js_abs NegInf = PosInf"
| "js_abs NaN = NaN"

fun js_sign :: "jsnum \<Rightarrow> jsnum" where
  "js_sign (Finite a) = Finite (sgn a)"
| "js_sign PosInf = Finite 1"
| "js_sign NegInf = Finite (- 1)"
| "js_sign NaN = NaN"

text \<open>The comparison \<open>a < b\<close>: false as soon as one side is NaN.\<close>

fun js_lt :: "jsnum \<Rightarrow> jsnum \<Rightarrow> bool" where
  "js_lt (Finite a) (Finite b) = (a < b)"
| "js_lt (Finite a) PosInf = True"
| "js_lt NegInf (Finite b) = True"
| "js_lt NegInf PosInf = True"
| "js_lt a b = False"


text \<open>Strict inequality \<open>a !== b\<close> on numbers: NaN differs from everything, itself included.\<close>

definition js_strict_neq :: "jsnum \<Rightarrow> jsnum \<Rightarrow> bool" where
  "js_strict_neq a b = (a = NaN \<or> b = NaN \<or> a \<noteq> b)"

definition isNaN :: "jsnum \<Rightarrow> bool" where
  "isNaN a = (a = NaN)"


text \<open>
  \<open>parseFloat(v.toFixed(d))\<close>. \<open>toFixed\<close> prints NaN and the infinities by name and a value
  of magnitude \<open>10^21\<close> or more in full, and \<open>parseFloat\<close> reads each of them back; below
  that it prints the decimal with \<open>d\<close> digits nearest to the value, the larger magnitude
  on a tie, with the sign in front.
\<close>

definition toFixed_limit :: rat where
  "toFixed_limit = 10 ^ 21"

definition round_decimals :: "nat \<Rightarrow> rat \<Rightarrow> rat" where
  "round_decimals d q = sgn q * of_int \<lfloor>\<bar>q\<bar> * 10 ^ d + 1 / 2\<rfloor> / 10 ^ d"

definition fixed_value :: "nat \<Rightarrow> rat \<Rightarrow> rat" where
  "fixed_value d q = (if toFixed_limit \<le> \<bar>q\<bar> then q else round_decimals d q)"

fun parseFloat_toFixed :: "nat \<Rightarrow> jsnum \<Rightarrow> jsnum" where
  "parseFloat_toFixed d (Finite q) = Finite (fixed_value d q)"
| "parseFloat_toFixed d PosInf = PosInf"
| "parseFloat_toFixed d NegInf = NegInf"
| "parseFloat_toFixed d NaN = NaN"


section \<open>Data model (types.ts)\<close>

text \<open>
  Field names carry a suffix where two interfaces share a name. \<open>min\<close> and \<open>max\<close> are
  optional in the model because the engine tests \<open>typeof primaryVar.min === 'number'\<close>:
  \<open>None\<close> is a value that is not a number.
\<close>

record VariableDef =
  name_v :: string
  symbol_v :: string
  min_v :: "jsnum option"
  max_v :: "jsnum option"
  default_v :: jsnum
  step_v :: jsnum
  description_v :: string

record OutputVariable =
  name_o :: string
  symbol_o :: string
  unit_o :: "string option"
  color_o :: "string option"
  visible_o :: "bool option"

text \<open>
  \<open>independentVariables\<close> and \<open>outputs\<close> are optional: the engine guards both against
  a missing value (\<open>!schema.independentVariables\<close>, \<open>schema.outputs || []\<close>).
\<close>

record SimulationSchema =
  title :: string
  description :: string
  independentVariables :: "VariableDef list option"
  outputs :: "OutputVariable list option"
  jsFormula :: string
  pythonFormula :: string
  analysisMarkdown :: string

text \<open>A \<open>DataPoint\<close> maps column keys to values; the engine stores numbers only.\<close>

type_synonym DataPoint = "string \<rightharpoonup> jsnum"

record Intersection =
  x_m :: jsnum
  y_m :: jsnum
  label_m :: string
  color_m :: string


section \<open>Schema ingestion: the formula body (geminiService.ts)\<close>

fun startsWith :: "string \<Rightarrow> string \<Rightarrow> bool" where
  "startsWith s [] = True"
| "startsWith [] (c # cs) = False"
| "startsWith (a # s) (c # cs) = (a = c \<and> startsWith s cs)"

text \<open>\<open>s.includes(pat)\<close>: \<open>pat\<close> occurs in \<open>s\<close> as a contiguous substring.\<close>

fun includes_str :: "string \<Rightarrow> string \<Rightarrow> bool" where
  "includes_str [] pat = (pat = [])"
| "includes_str (a # s) pat = (startsWith (a # s) pat \<or> includes_str s pat)"

text \<open>
  The last two statements of the validation block of \<open>analyzeProblemForSimulation\<close>:
  \<^verbatim>\<open>if (!parsed.jsFormula) parsed.jsFormula = "return 0;";\<close>
  \<^verbatim>\<open>if (!parsed.jsFormula.includes("return")) parsed.jsFormula = "return " + parsed.jsFormula;\<close>
  The parsed field is a string or missing; a missing field and the empty string are the
  falsy cases of the first test.
\<close>

definition validate_jsFormula :: "string option \<Rightarrow> string" where
  "validate_jsFormula parsed_jsFormula =
     (let f1 = (case parsed_jsFormula of
                  None \<Rightarrow> ''return 0;''
                | Some s \<Rightarrow> if s = [] then ''return 0;'' else s)
      in if \<not> includes_str f1 ''return'' then ''return '' @ f1 else f1)"


section \<open>The formula evaluator\<close>

text \<open>
  What a call of the compiled formula returns. An object result is given by its own keys
  in enumeration order; each key carries what \<open>Number(resultRaw[key])\<close> yields for it,
  \<open>None\<close> when that conversion raises (a Symbol, an object whose \<open>valueOf\<close> throws).
  The remaining constructors are the values whose \<open>typeof\<close> is neither \<open>'number'\<close> nor
  \<open>'object'\<close>, and \<open>null\<close>.
\<close>

datatype js_result =
    RNumber jsnum
  | RObject "(string \<times> jsnum option) list"
  | RNull
  | RUndefined
  | RString string
  | RBoolean bool
  | RBigInt int
  | RSymbol
  | RFunction

text \<open>
  \<open>new Function(...keys, schema.jsFormula)\<close> followed by \<open>func(...values)\<close> runs text
  that comes with the schema. The JavaScript semantics of that text is a parameter of the
  model: given the formula body, the binding of the parameter names and the ambient state
  \<open>'w\<close> of the host (globals, the random generator, the clock), it yields the returned
  value, \<open>None\<close> when compiling or running the body raises, and the ambient state after
  the call. The body is taken to leave alone the built-ins the engine itself calls
  (\<open>Number\<close>, \<open>toFixed\<close>, \<open>parseFloat\<close>, \<open>Math\<close>).
\<close>

type_synonym 'w evaluator =
  "string \<Rightarrow> (string \<rightharpoonup> jsnum) \<Rightarrow> 'w \<Rightarrow> js_result option \<times> 'w"


section \<open>Data generation engine (UniversalSimulator.tsx, generatedData)\<close>

text \<open>
  \<^verbatim>\<open>Object.keys(resultRaw).forEach(key => { point[key] = parseFloat(Number(resultRaw[key]).toFixed(4)); })\<close>
  A conversion that raises leaves the \<open>try\<close> block, so no point results.
\<close>

fun store_keys :: "(string \<times> jsnum option) list \<Rightarrow> DataPoint \<Rightarrow> DataPoint option" where
  "store_keys [] point = Some point"
| "store_keys ((key, v) # rest) point =
     (case v of
        None \<Rightarrow> None
      | Some n \<Rightarrow> store_keys rest (point(key \<mapsto> parseFloat_toFixed 4 n)))"

text \<open>\<^verbatim>\<open>outs[0]?.symbol || 'y'\<close>: the empty string is falsy.\<close>

definition first_symbol :: "OutputVariable list \<Rightarrow> string" where
  "first_symbol outs =
     (case outs of
        [] \<Rightarrow> ''y''
      | out # _ \<Rightarrow> if symbol_o out = [] then ''y'' else symbol_o out)"

text \<open>The defaults of the sweep range, and the step for a sample count.\<close>

definition minVal :: "VariableDef \<Rightarrow> jsnum" where
  "minVal primaryVar = (case min_v primaryVar of Some m \<Rightarrow> m | None \<Rightarrow> Finite (- 10))"

definition maxVal :: "VariableDef \<Rightarrow> jsnum" where
  "maxVal primaryVar = (case max_v primaryVar of Some m \<Rightarrow> m | None \<Rightarrow> Finite 10)"

definition step :: "VariableDef \<Rightarrow> int \<Rightarrow> jsnum" where
  "step primaryVar count =
     js_div (js_sub (maxVal primaryVar) (minVal primaryVar)) (Finite (of_int count))"

text \<open>\<^verbatim>\<open>const currentX = parseFloat((minVal + (i * step)).toFixed(2));\<close>\<close>

definition currentX :: "VariableDef \<Rightarrow> int \<Rightarrow> nat \<Rightarrow> jsnum" where
  "currentX primaryVar count i =
     parseFloat_toFixed 2
       (js_add (minVal primaryVar) (js_mul (Finite (of_nat i)) (step primaryVar count)))"

text \<open>
  The resolution is an integer (the slider's \<open>parseInt\<close>).
  \<^verbatim>\<open>const safeDataCount = dataCount > 0 ? dataCount : 100;\<close>
\<close>

definition safeDataCount :: "int \<Rightarrow> int" where
  "safeDataCount dataCount = (if 0 < dataCount then dataCount else 100)"

text \<open>
  The body of the sampling loop for index \<open>i\<close>: the point pushed, or \<open>None\<close> when the
  \<open>catch\<close> branch is taken, with the ambient state after the call of the formula.
\<close>

definition sample_point ::
  "'w evaluator \<Rightarrow> SimulationSchema \<Rightarrow> VariableDef \<Rightarrow> OutputVariable list \<Rightarrow>
   (string \<rightharpoonup> jsnum) \<Rightarrow> int \<Rightarrow> nat \<Rightarrow> 'w \<Rightarrow> DataPoint option \<times> 'w" where
  "sample_point run schema primaryVar outs variables count i w =
     (let contextVars = variables(symbol_v primaryVar \<mapsto> currentX primaryVar count i)
      in case run (jsFormula schema) contextVars w of
           (None, w') \<Rightarrow> (None, w')
         | (Some resultRaw, w') \<Rightarrow>
             (let point = [symbol_v primaryVar \<mapsto> currentX primaryVar count i] ++ contextVars
              in (case resultRaw of
                    RObject kvs \<Rightarrow> store_keys kvs point
                  | RNumber r \<Rightarrow> Some (point(first_symbol outs \<mapsto> parseFloat_toFixed 4 r))
                  | _ \<Rightarrow> Some point),
              w'))"

text \<open>
  \<^verbatim>\<open>for (let i = 0; i <= count; i++) { try { ... data.push(point) } catch (e) { ... } }\<close>
  from index \<open>i\<close> on, for a loop body \<open>body\<close>: the points pushed, in order, and the final
  ambient state. Both versions of the component run this loop.
\<close>

function data_loop ::
  "(nat \<Rightarrow> 'w \<Rightarrow> DataPoint option \<times> 'w) \<Rightarrow> nat \<Rightarrow> nat \<Rightarrow> 'w \<Rightarrow> DataPoint list \<times> 'w" where
  "data_loop body i count w =
     (if i \<le> count then
        (case body i w of
           (None, w') \<Rightarrow> data_loop body (Suc i) count w'
         | (Some point, w') \<Rightarrow>
             (case data_loop body (Suc i) count w' of
                (data, w'') \<Rightarrow> (point # data, w'')))
      else ([], w))"
  by pat_completeness auto
termination
  by (relation "measure (\<lambda>(body, i, count, w). Suc count - i)") auto

text \<open>The ambient state in which the loop body runs for index \<open>i\<close>, the loop starting at 0 in \<open>w\<close>.\<close>

fun world_before :: "(nat \<Rightarrow> 'w \<Rightarrow> DataPoint option \<times> 'w) \<Rightarrow> 'w \<Rightarrow> nat \<Rightarrow> 'w" where
  "world_before body w 0 = w"
| "world_before body w (Suc i) = snd (body i (world_before body w i))"

text \<open>\<^verbatim>\<open>const outs: OutputVariable[] = schema.outputs || [];\<close>\<close>

definition outs_of :: "SimulationSchema \<Rightarrow> OutputVariable list" where
  "outs_of schema = (case outputs schema of None \<Rightarrow> [] | Some os \<Rightarrow> os)"

text \<open>The memoised block: the dataset, the primary axis variable and the outputs.\<close>

definition generatedData ::
  "'w evaluator \<Rightarrow> SimulationSchema option \<Rightarrow> (string \<rightharpoonup> jsnum) \<Rightarrow> int \<Rightarrow> 'w \<Rightarrow>
   (DataPoint list \<times> VariableDef option \<times> OutputVariable list) \<times> 'w" where
  "generatedData run schema variables dataCount w =
     (case schema of
        None \<Rightarrow> (([], None, []), w)
      | Some s \<Rightarrow>
          (case independentVariables s of
             None \<Rightarrow> (([], None, []), w)
           | Some [] \<Rightarrow> (([], None, []), w)
           | Some (primaryVar # _) \<Rightarrow>
               (case data_loop
                       (sample_point run s primaryVar (outs_of s) variables
                          (safeDataCount dataCount))
                       0 (nat (safeDataCount dataCount)) w of
                  (data, w') \<Rightarrow> ((data, Some primaryVar, outs_of s), w'))))"


section \<open>The earlier version of the component (generateDataset)\<close>

text \<open>
  The loop body of \<open>generateDataset\<close>. It differs from the one above in the key of a
  single-number result, \<^verbatim>\<open>currentSchema.outputs[0]?.symbol || 'y'\<close>: reading index 0 of
  a missing \<open>outputs\<close> raises inside the \<open>try\<close> block.
\<close>

definition sample_point_legacy ::
  "'w evaluator \<Rightarrow> SimulationSchema \<Rightarrow> VariableDef \<Rightarrow> (string \<rightharpoonup> jsnum) \<Rightarrow> int \<Rightarrow> nat \<Rightarrow> 'w \<Rightarrow>
   DataPoint option \<times> 'w" where
  "sample_point_legacy run currentSchema primaryVar currentVars count i w =
     (let contextVars = currentVars(symbol_v primaryVar \<mapsto> currentX primaryVar count i)
      in case run (jsFormula currentSchema) contextVars w of
           (None, w') \<Rightarrow> (None, w')
         | (Some resultRaw, w') \<Rightarrow>
             (let point = [symbol_v primaryVar \<mapsto> currentX primaryVar count i] ++ contextVars
              in (case resultRaw of
                    RObject kvs \<Rightarrow> store_keys kvs point
                  | RNumber r \<Rightarrow>
                      (case outputs currentSchema of
                         None \<Rightarrow> None
                       | Some os \<Rightarrow> Some (point(first_symbol os \<mapsto> parseFloat_toFixed 4 r)))
                  | _ \<Rightarrow> Some point),
              w'))"

text \<open>
  \<open>generateDataset\<close> ends in \<open>setGeneratedData(data)\<close>; the early returns leave the
  dataset of the component as it was, which is the result \<open>None\<close>. The count is used as
  given, so a negative count runs the loop body for no index.
\<close>

definition generateDataset ::
  "'w evaluator \<Rightarrow> SimulationSchema option \<Rightarrow> (string \<rightharpoonup> jsnum) \<Rightarrow> int \<Rightarrow> 'w \<Rightarrow>
   DataPoint list option \<times> 'w" where
  "generateDataset run currentSchema currentVars count w =
     (case currentSchema of
        None \<Rightarrow> (None, w)
      | Some s \<Rightarrow>
          (case independentVariables s of
             None \<Rightarrow> (None, w)
           | Some [] \<Rightarrow> (None, w)
           | Some (primaryVar # _) \<Rightarrow>
               if count < 0 then (Some [], w)
               else
                 (case data_loop (sample_point_legacy run s primaryVar currentVars count)
                         0 (nat count) w of
                    (data, w') \<Rightarrow> (Some data, w'))))"


section \<open>Intersection detection engine (UniversalSimulator.tsx, intersections)\<close>

text \<open>\<open>Number(p[key])\<close> on a data point: a missing column is \<open>undefined\<close>, hence NaN.\<close>

definition js_get :: "DataPoint \<Rightarrow> string \<Rightarrow> jsnum" where
  "js_get p key = (case p key of None \<Rightarrow> NaN | Some v \<Rightarrow> v)"

text \<open>The body of the innermost loop for one segment \<open>(p1, p2)\<close>: the marker pushed, if any.\<close>

definition segment_marker ::
  "string \<Rightarrow> string \<Rightarrow> string \<Rightarrow> DataPoint \<Rightarrow> DataPoint \<Rightarrow> Intersection option" where
  "segment_marker primarySymbol symbolA symbolB p1 p2 =
     (let x1 = js_get p1 primarySymbol;
          x2 = js_get p2 primarySymbol;
          yA1 = js_get p1 symbolA;
          yB1 = js_get p1 symbolB;
          yA2 = js_get p2 symbolA;
          yB2 = js_get p2 symbolB
      in if isNaN yA1 \<or> isNaN yB1 \<or> isNaN yA2 \<or> isNaN yB2 then None
         else
           (let diff1 = js_sub yA1 yB1;
                diff2 = js_sub yA2 yB2
            in if js_strict_neq (js_sign diff1) (js_sign diff2) \<and>
                  js_lt (js_abs diff1) (Finite 1000)
               then
                 (let fraction = js_div (js_abs diff1) (js_add (js_abs diff1) (js_abs diff2));
                      intersectX = js_add x1 (js_mul fraction (js_sub x2 x1));
                      intersectY = js_add yA1 (js_mul fraction (js_sub yA2 yA1))
                  in Some \<lparr>x_m = parseFloat_toFixed 2 intersectX,
                           y_m = parseFloat_toFixed 2 intersectY,
                           label_m = ''Cruce'',
                           color_m = ''#EF4444''\<rparr>)
               else None))"

text \<open>\<^verbatim>\<open>for (let k = 0; k < generatedData.length - 1; k++)\<close>: every adjacent pair, in order.\<close>

fun segment_loop ::
  "string \<Rightarrow> string \<Rightarrow> string \<Rightarrow> DataPoint list \<Rightarrow> Intersection list" where
  "segment_loop primarySymbol symbolA symbolB (p1 # p2 # rest) =
     (case segment_marker primarySymbol symbolA symbolB p1 p2 of
        None \<Rightarrow> []
      | Some m \<Rightarrow> [m])
     @ segment_loop primarySymbol symbolA symbolB (p2 # rest)"
| "segment_loop primarySymbol symbolA symbolB ps = []"

text \<open>\<^verbatim>\<open>for (let j = i + 1; j < activeOutputs.length; j++)\<close>: \<open>lineA\<close> against every later output.\<close>

fun lineB_loop ::
  "string \<Rightarrow> DataPoint list \<Rightarrow> OutputVariable \<Rightarrow> OutputVariable list \<Rightarrow> Intersection list" where
  "lineB_loop primarySymbol data lineA [] = []"
| "lineB_loop primarySymbol data lineA (lineB # rest) =
     segment_loop primarySymbol (symbol_o lineA) (symbol_o lineB) data
     @ lineB_loop primarySymbol data lineA rest"

text \<open>\<^verbatim>\<open>for (let i = 0; i < activeOutputs.length; i++)\<close>.\<close>

fun lineA_loop ::
  "string \<Rightarrow> DataPoint list \<Rightarrow> OutputVariable list \<Rightarrow> Intersection list" where
  "lineA_loop primarySymbol data [] = []"
| "lineA_loop primarySymbol data (lineA # rest) =
     lineB_loop primarySymbol data lineA rest @ lineA_loop primarySymbol data rest"

definition activeOutputs :: "OutputVariable list \<Rightarrow> string set \<Rightarrow> OutputVariable list" where
  "activeOutputs outs hiddenLines = filter (\<lambda>out. symbol_o out \<notin> hiddenLines) outs"

definition intersections ::
  "DataPoint list \<Rightarrow> OutputVariable list \<Rightarrow> string set \<Rightarrow> VariableDef option \<Rightarrow>
   Intersection list" where
  "intersections data outs hiddenLines primaryAxisVar =
     (case primaryAxisVar of
        None \<Rightarrow> []
      | Some pv \<Rightarrow>
          if data = [] \<or> length outs < 2 then []
          else lineA_loop (symbol_v pv) data (activeOutputs outs hiddenLines))"

text \<open>
  One evaluation of the component's two memoised blocks: the dataset and the intersection
  list for a schema, a variable binding, a resolution and the set of hidden lines.
\<close>

definition UniversalSimulator ::
  "'w evaluator \<Rightarrow> SimulationSchema option \<Rightarrow> (string \<rightharpoonup> jsnum) \<Rightarrow> int \<Rightarrow> string set \<Rightarrow> 'w \<Rightarrow>
   (DataPoint list \<times> Intersection list) \<times> 'w" where
  "UniversalSimulator run schema variables dataCount hiddenLines w =
     (case generatedData run schema variables dataCount w of
        ((data, primaryAxisVar, outs), w') \<Rightarrow>
          ((data, intersections data outs hiddenLines primaryAxisVar), w'))"


section \<open>Example inputs\<close>

text \<open>Builders for the schemas the concrete checks below run on.\<close>

definition example_var :: "string \<Rightarrow> rat \<Rightarrow> rat \<Rightarrow> VariableDef" where
  "example_var symb lo hi =
     \<lparr>name_v = symb, symbol_v = symb, min_v = Some (Finite lo), max_v = Some (Finite hi),
      default_v = Finite lo, step_v = Finite 1, description_v = []\<rparr>"

definition example_output :: "string \<Rightarrow> OutputVariable" where
  "example_output symb =
     \<lparr>name_o = symb, symbol_o = symb, unit_o = None, color_o = None, visible_o = None\<rparr>"

definition example_schema ::
  "string \<Rightarrow> VariableDef list \<Rightarrow> OutputVariable list \<Rightarrow> SimulationSchema" where
  "example_schema body vars outs =
     \<lparr>title = ''Example'', description = [], independentVariables = Some vars,
      outputs = Some outs, jsFormula = body, pythonFormula = [], analysisMarkdown = []\<rparr>"

text \<open>
  What JavaScript does with a few formula bodies. The ambient state is the value of a
  global counter \<open>globalThis.calls\<close>, which only the last body touches. A body that reads
  \<open>x\<close> raises a ReferenceError when no parameter has that name, and so does the body
  that reads \<open>undefinedSymbol\<close>; reading \<open>x.y.z\<close> of a number raises a TypeError.
\<close>

definition example_run :: "nat evaluator" where
  "example_run body binding w =
     (if body = ''return {A: 2*x, B: -2*x+10};'' then
        (case binding ''x'' of
           None \<Rightarrow> (None, w)
         | Some x \<Rightarrow>
             (Some (RObject
                [(''A'', Some (js_mul (Finite 2) x)),
                 (''B'', Some (js_add (js_mul (Finite (- 2)) x) (Finite 10)))]), w))
      else if body = ''return {A: 1/(x-1), B: 0};'' then
        (case binding ''x'' of
           None \<Rightarrow> (None, w)
         | Some x \<Rightarrow>
             (Some (RObject
                [(''A'', Some (js_div (Finite 1) (js_sub x (Finite 1)))),
                 (''B'', Some (Finite 0))]), w))
      else if body = ''return 0;'' then (Some (RNumber (Finite 0)), w)
      else if body = ''return {x: -x};'' then
        (case binding ''x'' of
           None \<Rightarrow> (None, w)
         | Some x \<Rightarrow> (Some (RObject [(''x'', Some (js_neg x))]), w))
      else if body = ''return x;'' then
        (case binding ''x'' of
           None \<Rightarrow> (None, w)
         | Some x \<Rightarrow> (Some (RNumber x), w))
      else if body = ''return undefinedSymbol;'' then (None, w)
      else if body = ''return x < 2 ? x : x.y.z;'' then
        (case binding ''x'' of
           None \<Rightarrow> (None, w)
         | Some x \<Rightarrow> if js_lt x (Finite 2) then (Some (RNumber x), w) else (None, w))
      else if body = ''return `n/a`;'' then (Some (RString ''n/a''), w)
      else if body = ''return ++globalThis.calls;'' then
        (Some (RNumber (Finite (of_nat (Suc w)))), Suc w)
      else (None, w))"


section \<open>Notions used in the statements\<close>

text \<open>The data point of index \<open>k\<close> for the two lines \<open>A = 2x\<close> and \<open>B = -2x + 10\<close> over \<open>[0, 10]\<close>.\<close>

definition lines_point :: "(string \<rightharpoonup> jsnum) \<Rightarrow> nat \<Rightarrow> DataPoint" where
  "lines_point variables k =
     variables(''x'' \<mapsto> Finite (of_nat k),
               ''A'' \<mapsto> Finite (2 * of_nat k),
               ''B'' \<mapsto> Finite (10 - 2 * of_nat k))"



section \<open>The sampling loop: general facts\<close>

declare data_loop.simps [simp del]

lemma data_loop_stop: "\<not> i \<le> count \<Longrightarrow> data_loop body i count w = ([], w)"
  by (subst data_loop.simps) simp

lemma data_loop_skip:
  "i \<le> count \<Longrightarrow> body i w = (None, w') \<Longrightarrow>
   data_loop body i count w = data_loop body (Suc i) count w'"
  by (subst data_loop.simps) simp

lemma data_loop_push:
  "i \<le> count \<Longrightarrow> body i w = (Some point, w') \<Longrightarrow>
   data_loop body i count w =
     (point # fst (data_loop body (Suc i) count w'), snd (data_loop body (Suc i) count w'))"
  by (subst data_loop.simps) (simp add: case_prod_beta)


lemma data_loop_all_fail:
  assumes fail: "\<And>k v. fst (body k v) = None"
  shows "fst (data_loop body i count w) = []"
proof (induction "Suc count - i" arbitrary: i w)
  case 0
  then have "\<not> i \<le> count" by simp
  then show ?case by (simp add: data_loop_stop)
next
  case (Suc k)
  from Suc.hyps(2) have le: "i \<le> count" and k: "k = Suc count - Suc i" by simp_all
  have ih: "fst (data_loop body (Suc i) count v) = []" for v
    using k by (rule Suc.hyps(1))
  from fail [of i w] have "body i w = (None, snd (body i w))"
    by (cases "body i w") simp
  from data_loop_skip [where body = body and w = w, OF le this] ih show ?case by simp
qed

lemma data_loop_state_free:
  assumes ign: "\<And>k v v'. fst (body k v) = fst (body k v')"
  shows "fst (data_loop body i count w1) = fst (data_loop body i count w2)"
proof (induction "Suc count - i" arbitrary: i w1 w2)
  case 0
  then have "\<not> i \<le> count" by simp
  then show ?case by (simp add: data_loop_stop)
next
  case (Suc k)
  from Suc.hyps(2) have le: "i \<le> count" and k: "k = Suc count - Suc i" by simp_all
  have ih: "fst (data_loop body (Suc i) count v) = fst (data_loop body (Suc i) count v')" for v v'
    using k by (rule Suc.hyps(1))
  obtain r1 u1 where b1: "body i w1 = (r1, u1)" by (cases "body i w1")
  obtain r2 u2 where b2: "body i w2 = (r2, u2)" by (cases "body i w2")
  from ign [of i w1 w2] b1 b2 have r: "r2 = r1" by simp
  show ?case
  proof (cases r1)
    case None
    with b1 b2 r have c1: "body i w1 = (None, u1)" and c2: "body i w2 = (None, u2)" by simp_all
    from data_loop_skip [where body = body and w = w1, OF le c1]
         data_loop_skip [where body = body and w = w2, OF le c2] ih [of u1 u2]
    show ?thesis by simp
  next
    case (Some point)
    with b1 b2 r have c1: "body i w1 = (Some point, u1)" and c2: "body i w2 = (Some point, u2)"
      by simp_all
    from data_loop_push [where body = body and w = w1, OF le c1]
         data_loop_push [where body = body and w = w2, OF le c2] ih [of u1 u2]
    show ?thesis by simp
  qed
qed

lemma data_loop_map_filter:
  "i \<le> Suc count \<Longrightarrow>
   data_loop body i count (world_before body w i) =
     (List.map_filter (\<lambda>k. fst (body k (world_before body w k))) [i..<Suc count],
      world_before body w (Suc count))"
proof (induction "Suc count - i" arbitrary: i)
  case 0
  then have "i = Suc count" by simp
  then show ?case
    by (simp add: data_loop_stop map_filter_simps del: upt_Suc world_before.simps)
next
  case (Suc k)
  from Suc.hyps(2) have le: "i \<le> count" and k: "k = Suc count - Suc i" by simp_all
  from le have "Suc i \<le> Suc count" by simp
  with k have ih: "data_loop body (Suc i) count (world_before body w (Suc i)) =
     (List.map_filter (\<lambda>k. fst (body k (world_before body w k))) [Suc i..<Suc count],
      world_before body w (Suc count))"
    by (rule Suc.hyps(1))
  from le have upt: "[i..<Suc count] = i # [Suc i..<Suc count]"
    by (simp add: upt_conv_Cons del: upt_Suc)
  obtain r u where b: "body i (world_before body w i) = (r, u)"
    by (cases "body i (world_before body w i)")
  then have u: "world_before body w (Suc i) = u" by simp
  show ?case
  proof (cases r)
    case None
    with b have c: "body i (world_before body w i) = (None, u)" by simp
    from data_loop_skip [where body = body and w = "world_before body w i", OF le c]
    have "data_loop body i count (world_before body w i) = data_loop body (Suc i) count u" .
    with ih u c show ?thesis
      unfolding upt by (simp add: map_filter_simps del: upt_Suc world_before.simps)
  next
    case (Some point)
    with b have c: "body i (world_before body w i) = (Some point, u)" by simp
    from data_loop_push [where body = body and w = "world_before body w i", OF le c]
    have "data_loop body i count (world_before body w i) =
        (point # fst (data_loop body (Suc i) count u), snd (data_loop body (Suc i) count u))" .
    with ih u c show ?thesis
      unfolding upt by (simp add: map_filter_simps del: upt_Suc world_before.simps)
  qed
qed


section \<open>The engine on degenerate inputs\<close>

lemma lineA_loop_short: "length acts < 2 \<Longrightarrow> lineA_loop ps data acts = []"
proof (cases acts)
  case Nil
  then show ?thesis by simp
next
  case (Cons a rest)
  assume "length acts < 2"
  with Cons have "rest = []" by simp
  with Cons show ?thesis by simp
qed

text \<open>
  C6. With fewer than two visible outputs (the declared outputs that are not hidden), the
  intersection pass returns the empty list, whatever the dataset holds.
\<close>

theorem C6_fewer_than_two_visible:
  "length (activeOutputs outs hiddenLines) < 2 \<Longrightarrow>
   intersections data outs hiddenLines primaryAxisVar = []"
  by (simp add: intersections_def lineA_loop_short split: option.splits)

theorem C6_fewer_than_two_visible_witness:
  "length (activeOutputs [example_output ''A'', example_output ''B''] {''B''}) < 2 \<and>
   intersections
     [[''x'' \<mapsto> Finite 0, ''A'' \<mapsto> Finite 0, ''B'' \<mapsto> Finite 1],
      [''x'' \<mapsto> Finite 1, ''A'' \<mapsto> Finite 1, ''B'' \<mapsto> Finite 0]]
     [example_output ''A'', example_output ''B''] {''B''}
     (Some (example_var ''x'' 0 1)) = []"
proof -
  have h: "length (activeOutputs [example_output ''A'', example_output ''B''] {''B''}) < 2"
    by (simp add: activeOutputs_def example_output_def)
  from h C6_fewer_than_two_visible [OF h] show ?thesis by simp
qed

lemma generatedData_no_variables:
  "independentVariables s = None \<or> independentVariables s = Some [] \<Longrightarrow>
   generatedData run (Some s) variables dataCount w = (([], None, []), w)"
  by (auto simp: generatedData_def)

lemma generatedData_primary:
  "independentVariables s = Some (primaryVar # rest) \<Longrightarrow>
   generatedData run (Some s) variables dataCount w =
     ((fst (data_loop (sample_point run s primaryVar (outs_of s) variables (safeDataCount dataCount))
              0 (nat (safeDataCount dataCount)) w),
       Some primaryVar, outs_of s),
      snd (data_loop (sample_point run s primaryVar (outs_of s) variables (safeDataCount dataCount))
              0 (nat (safeDataCount dataCount)) w))"
  by (simp add: generatedData_def case_prod_beta)

text \<open>
  C8. A schema whose list of independent variables is empty or missing gives the empty
  dataset and the empty intersection list; the formula is not run, so the ambient state
  is untouched.
\<close>

theorem C8_no_independent_variables:
  "independentVariables s = None \<or> independentVariables s = Some [] \<Longrightarrow>
   UniversalSimulator run (Some s) variables dataCount hiddenLines w = (([], []), w)"
  by (simp add: UniversalSimulator_def generatedData_no_variables intersections_def)

theorem C8_no_independent_variables_witness:
  "independentVariables (example_schema ''return x;'' [] [example_output ''y'']) = Some [] \<and>
   UniversalSimulator example_run
     (Some (example_schema ''return x;'' [] [example_output ''y''])) [''x'' \<mapsto> Finite 1] 100 {} 0
   = (([], []), 0)"
proof -
  have h: "independentVariables (example_schema ''return x;'' [] [example_output ''y'']) = Some []"
    by (simp add: example_schema_def)
  from h C8_no_independent_variables [of "example_schema ''return x;'' [] [example_output ''y'']",
      OF disjI2, OF h]
  show ?thesis by simp
qed


section \<open>Evaluation failures\<close>

lemma sample_point_throw:
  "fst (run (jsFormula s) (variables(symbol_v pv \<mapsto> currentX pv count i)) w) = None \<Longrightarrow>
   fst (sample_point run s pv outs variables count i w) = None"
  by (cases "run (jsFormula s) (variables(symbol_v pv \<mapsto> currentX pv count i)) w")
     (simp add: sample_point_def)

text \<open>
  C3. When the formula raises at every call, the engine returns the empty dataset and the
  empty intersection list (the model has no error result: every \<open>catch\<close> is a branch).
  In general the dataset holds, in index order, the points of exactly those indices
  \<open>0, ..., safeDataCount\<close> at which the loop body succeeds: a failing index contributes
  nothing and the loop goes on to the next one.
\<close>

theorem C3_failures_absorbed:
  "((\<forall>binding v. fst (run (jsFormula s) binding v) = None) \<longrightarrow>
      fst (UniversalSimulator run (Some s) variables dataCount hiddenLines w) = ([], [])) \<and>
   (\<forall>primaryVar rest. independentVariables s = Some (primaryVar # rest) \<longrightarrow>
      fst (fst (generatedData run (Some s) variables dataCount w)) =
        List.map_filter
          (\<lambda>i. fst (sample_point run s primaryVar (outs_of s) variables (safeDataCount dataCount) i
                  (world_before
                     (sample_point run s primaryVar (outs_of s) variables (safeDataCount dataCount))
                     w i)))
          [0..<Suc (nat (safeDataCount dataCount))])"
proof (intro conjI impI allI)
  assume throws: "\<forall>binding v. fst (run (jsFormula s) binding v) = None"
  show "fst (UniversalSimulator run (Some s) variables dataCount hiddenLines w) = ([], [])"
  proof (cases "independentVariables s")
    case None
    then show ?thesis
      by (simp add: UniversalSimulator_def generatedData_no_variables intersections_def)
  next
    case (Some vars)
    show ?thesis
    proof (cases vars)
      case Nil
      with Some show ?thesis
        by (simp add: UniversalSimulator_def generatedData_no_variables intersections_def)
    next
      case (Cons primaryVar rest)
      with Some have iv: "independentVariables s = Some (primaryVar # rest)" by simp
      have "fst (sample_point run s primaryVar (outs_of s) variables (safeDataCount dataCount) k v)
              = None" for k v
        using throws by (simp add: sample_point_throw)
      then have "fst (data_loop
          (sample_point run s primaryVar (outs_of s) variables (safeDataCount dataCount))
          0 (nat (safeDataCount dataCount)) w) = []"
        by (rule data_loop_all_fail)
      then show ?thesis
        by (simp add: UniversalSimulator_def generatedData_primary [OF iv] intersections_def)
    qed
  qed
next
  fix primaryVar rest
  assume iv: "independentVariables s = Some (primaryVar # rest)"
  have "fst (data_loop body 0 count w) =
      List.map_filter (\<lambda>k. fst (body k (world_before body w k))) [0..<Suc count]"
    for body :: "nat \<Rightarrow> 'a \<Rightarrow> DataPoint option \<times> 'a" and count
    using data_loop_map_filter [of 0 count body w] by simp
  then show "fst (fst (generatedData run (Some s) variables dataCount w)) =
        List.map_filter
          (\<lambda>i. fst (sample_point run s primaryVar (outs_of s) variables (safeDataCount dataCount) i
                  (world_before
                     (sample_point run s primaryVar (outs_of s) variables (safeDataCount dataCount))
                     w i)))
          [0..<Suc (nat (safeDataCount dataCount))]"
    by (simp add: generatedData_primary [OF iv] del: upt_Suc world_before.simps)
qed

text \<open>
  The theorem at a formula that reads an undefined symbol, and at one that fails from
  \<open>x = 2\<close> on: over \<open>[0, 4]\<close> with 4 steps only the points of \<open>x = 0\<close> and \<open>x = 1\<close> remain.
\<close>

theorem C3_failures_absorbed_witness:
  "(\<forall>binding v. fst (example_run
       (jsFormula (example_schema ''return undefinedSymbol;'' [example_var ''x'' 0 4]
          [example_output ''y''])) binding v) = None) \<and>
   fst (UniversalSimulator example_run
     (Some (example_schema ''return undefinedSymbol;'' [example_var ''x'' 0 4]
        [example_output ''y''])) [''x'' \<mapsto> Finite 0] 4 {} 0) = ([], []) \<and>
   map (\<lambda>p. (js_get p ''x'', js_get p ''y''))
     (fst (fst (generatedData example_run
        (Some (example_schema ''return x < 2 ? x : x.y.z;'' [example_var ''x'' 0 4]
           [example_output ''y''])) [''x'' \<mapsto> Finite 0] 4 0)))
   = [(Finite 0, Finite 0), (Finite 1, Finite 1)]"
proof -
  let ?S1 = "example_schema ''return undefinedSymbol;'' [example_var ''x'' 0 4]
    [example_output ''y'']"
  let ?S2 = "example_schema ''return x < 2 ? x : x.y.z;'' [example_var ''x'' 0 4]
    [example_output ''y'']"
  let ?body = "sample_point example_run ?S2 (example_var ''x'' 0 4) (outs_of ?S2)
    [''x'' \<mapsto> Finite 0] (safeDataCount 4)"
  have h: "\<forall>binding v. fst (example_run (jsFormula ?S1) binding v) = None"
    by (simp add: example_schema_def example_run_def)
  have iv: "independentVariables ?S2 = Some (example_var ''x'' 0 4 # [])"
    by (simp add: example_schema_def)
  have a: "fst (UniversalSimulator example_run (Some ?S1) [''x'' \<mapsto> Finite 0] 4 {} 0) = ([], [])"
    using C3_failures_absorbed [of example_run ?S1 "[''x'' \<mapsto> Finite 0]" 4 "{}" 0] h
    by blast
  have b: "fst (fst (generatedData example_run (Some ?S2) [''x'' \<mapsto> Finite 0] 4 0)) =
      List.map_filter (\<lambda>i. fst (?body i (world_before ?body 0 i)))
        [0..<Suc (nat (safeDataCount 4))]"
    using C3_failures_absorbed [of example_run ?S2 "[''x'' \<mapsto> Finite 0]" 4 "{}" 0] iv
    by blast
  have c: "map (\<lambda>p. (js_get p ''x'', js_get p ''y''))
        (List.map_filter (\<lambda>i. fst (?body i (world_before ?body 0 i)))
           [0..<Suc (nat (safeDataCount 4))])
      = [(Finite 0, Finite 0), (Finite 1, Finite 1)]"
    by code_simp
  from h a b c show ?thesis by simp
qed


section \<open>Determinism\<close>

lemma sample_point_state_free:
  assumes "\<forall>binding v v'. fst (run (jsFormula s) binding v) = fst (run (jsFormula s) binding v')"
  shows "fst (sample_point run s pv outs variables count i w1) =
         fst (sample_point run s pv outs variables count i w2)"
proof -
  let ?ctx = "variables(symbol_v pv \<mapsto> currentX pv count i)"
  obtain r1 u1 where b1: "run (jsFormula s) ?ctx w1 = (r1, u1)"
    by (cases "run (jsFormula s) ?ctx w1")
  obtain r2 u2 where b2: "run (jsFormula s) ?ctx w2 = (r2, u2)"
    by (cases "run (jsFormula s) ?ctx w2")
  from assms b1 b2 have "r1 = r2" by (metis fst_conv)
  with b1 b2 show ?thesis
    by (cases r2) (simp_all add: sample_point_def)
qed

text \<open>
  C7 (as stated, refuted). The formula body is text run by \<open>new Function\<close>, so it can read
  and write state outside its arguments. With the body \<open>return ++globalThis.calls;\<close> two
  evaluations of the engine on the same schema, binding and resolution, the second in the
  state the first has left, give different datasets (the \<open>y\<close> column is 1, 2 and then
  3, 4).
\<close>

theorem C7_hidden_state_counterexample:
  "fst (UniversalSimulator example_run
        (Some (example_schema ''return ++globalThis.calls;'' [example_var ''x'' 0 10]
           [example_output ''y''])) [''x'' \<mapsto> Finite 0] 1 {} 0)
   \<noteq>
   fst (UniversalSimulator example_run
        (Some (example_schema ''return ++globalThis.calls;'' [example_var ''x'' 0 10]
           [example_output ''y''])) [''x'' \<mapsto> Finite 0] 1 {}
        (snd (UniversalSimulator example_run
           (Some (example_schema ''return ++globalThis.calls;'' [example_var ''x'' 0 10]
              [example_output ''y''])) [''x'' \<mapsto> Finite 0] 1 {} 0)))"
proof
  let ?S = "Some (example_schema ''return ++globalThis.calls;'' [example_var ''x'' 0 10]
           [example_output ''y''])"
  let ?first = "UniversalSimulator example_run ?S [''x'' \<mapsto> Finite 0] 1 {} 0"
  let ?second = "UniversalSimulator example_run ?S [''x'' \<mapsto> Finite 0] 1 {} (snd ?first)"
  assume eq: "fst ?first = fst ?second"
  have a: "map (\<lambda>p. js_get p ''y'') (fst (fst ?first)) = [Finite 1, Finite 2]"
    by code_simp
  have b: "map (\<lambda>p. js_get p ''y'') (fst (fst ?second)) = [Finite 3, Finite 4]"
    by code_simp
  from a b eq show False by simp
qed

text \<open>
  C7 (amended). When the outcome of the formula body does not depend on the ambient state
  (the body is a function of its arguments), the dataset and the intersection list are
  the same in every ambient state: they are determined by the schema, the binding, the
  resolution and the set of hidden lines.
\<close>

theorem C7_deterministic_for_pure_formula:
  assumes "\<forall>binding v v'. fst (run (jsFormula s) binding v) = fst (run (jsFormula s) binding v')"
  shows "fst (UniversalSimulator run (Some s) variables dataCount hiddenLines w1) =
         fst (UniversalSimulator run (Some s) variables dataCount hiddenLines w2)"
proof (cases "independentVariables s")
  case None
  then show ?thesis
    by (simp add: UniversalSimulator_def generatedData_no_variables)
next
  case (Some vars)
  show ?thesis
  proof (cases vars)
    case Nil
    with Some show ?thesis
      by (simp add: UniversalSimulator_def generatedData_no_variables)
  next
    case (Cons primaryVar rest)
    with Some have iv: "independentVariables s = Some (primaryVar # rest)" by simp
    let ?body = "sample_point run s primaryVar (outs_of s) variables (safeDataCount dataCount)"
    have "fst (?body k v) = fst (?body k v')" for k v v'
      using assms by (rule sample_point_state_free)
    then have "fst (data_loop ?body 0 (nat (safeDataCount dataCount)) w1) =
               fst (data_loop ?body 0 (nat (safeDataCount dataCount)) w2)"
      by (rule data_loop_state_free)
    then show ?thesis
      by (simp add: UniversalSimulator_def generatedData_primary [OF iv])
  qed
qed

theorem C7_deterministic_for_pure_formula_witness:
  "(\<forall>binding v v'.
      fst (example_run (jsFormula (example_schema ''return {A: 2*x, B: -2*x+10};''
             [example_var ''x'' 0 10] [example_output ''A'', example_output ''B''])) binding v) =
      fst (example_run (jsFormula (example_schema ''return {A: 2*x, B: -2*x+10};''
             [example_var ''x'' 0 10] [example_output ''A'', example_output ''B''])) binding v')) \<and>
   fst (UniversalSimulator example_run
          (Some (example_schema ''return {A: 2*x, B: -2*x+10};''
             [example_var ''x'' 0 10] [example_output ''A'', example_output ''B'']))
          [''x'' \<mapsto> Finite 0] 10 {} 0) =
   fst (UniversalSimulator example_run
          (Some (example_schema ''return {A: 2*x, B: -2*x+10};''
             [example_var ''x'' 0 10] [example_output ''A'', example_output ''B'']))
          [''x'' \<mapsto> Finite 0] 10 {} 7)"
proof -
  let ?S = "example_schema ''return {A: 2*x, B: -2*x+10};''
             [example_var ''x'' 0 10] [example_output ''A'', example_output ''B'']"
  have h: "\<forall>binding v v'. fst (example_run (jsFormula ?S) binding v) =
      fst (example_run (jsFormula ?S) binding v')"
    by (simp add: example_schema_def example_run_def split: option.splits)
  from h C7_deterministic_for_pure_formula
      [where run = example_run and s = ?S and variables = "[''x'' \<mapsto> Finite 0]"
         and dataCount = 10 and hiddenLines = "{}" and ?w1.0 = 0 and ?w2.0 = 7, OF h]
  show ?thesis by simp
qed


section \<open>The shape of a data point\<close>

lemma point_eq_contextVars: "([k \<mapsto> v] ++ m)(k \<mapsto> v) = m(k \<mapsto> v)"
  by (rule ext) (simp add: map_add_def split: option.splits)

lemma sample_point_other:
  assumes "run (jsFormula s) (variables(symbol_v pv \<mapsto> currentX pv count i)) w = (Some r, w')"
    and "\<forall>n. r \<noteq> RNumber n" and "\<forall>kvs. r \<noteq> RObject kvs"
  shows "sample_point run s pv outs variables count i w =
           (Some (variables(symbol_v pv \<mapsto> currentX pv count i)), w')"
  using assms by (cases r) (simp_all add: sample_point_def point_eq_contextVars)

lemma sample_point_legacy_other:
  assumes "run (jsFormula s) (variables(symbol_v pv \<mapsto> currentX pv count i)) w = (Some r, w')"
    and "\<forall>n. r \<noteq> RNumber n" and "\<forall>kvs. r \<noteq> RObject kvs"
  shows "sample_point_legacy run s pv variables count i w =
           (Some (variables(symbol_v pv \<mapsto> currentX pv count i)), w')"
  using assms by (cases r) (simp_all add: sample_point_legacy_def point_eq_contextVars)

text \<open>
  C9. When the formula returns a value that is neither a number nor a non-null object, the
  loop body still yields a point, and that point is the binding with the primary symbol
  set to the rounded sweep value: no other column is written. The loop pushes it and goes
  on with the next index. Both versions of the component behave so.
\<close>

theorem C9_other_result_emits_bare_point:
  assumes res: "run (jsFormula s) (variables(symbol_v pv \<mapsto> currentX pv count i)) w = (Some r, w')"
    and nonum: "\<forall>n. r \<noteq> RNumber n" and noobj: "\<forall>kvs. r \<noteq> RObject kvs"
    and le: "i \<le> bound"
  shows "sample_point run s pv outs variables count i w =
           (Some (variables(symbol_v pv \<mapsto> currentX pv count i)), w') \<and>
         fst (data_loop (sample_point run s pv outs variables count) i bound w) =
           variables(symbol_v pv \<mapsto> currentX pv count i) #
           fst (data_loop (sample_point run s pv outs variables count) (Suc i) bound w') \<and>
         sample_point_legacy run s pv variables count i w =
           (Some (variables(symbol_v pv \<mapsto> currentX pv count i)), w') \<and>
         fst (data_loop (sample_point_legacy run s pv variables count) i bound w) =
           variables(symbol_v pv \<mapsto> currentX pv count i) #
           fst (data_loop (sample_point_legacy run s pv variables count) (Suc i) bound w')"
proof -
  let ?p = "variables(symbol_v pv \<mapsto> currentX pv count i)"
  have a: "sample_point run s pv outs variables count i w = (Some ?p, w')"
    using res nonum noobj by (rule sample_point_other)
  have b: "sample_point_legacy run s pv variables count i w = (Some ?p, w')"
    using res nonum noobj by (rule sample_point_legacy_other)
  from data_loop_push [where body = "sample_point run s pv outs variables count" and w = w,
      OF le a]
  have c: "fst (data_loop (sample_point run s pv outs variables count) i bound w) =
      ?p # fst (data_loop (sample_point run s pv outs variables count) (Suc i) bound w')"
    by simp
  from data_loop_push [where body = "sample_point_legacy run s pv variables count" and w = w,
      OF le b]
  have d: "fst (data_loop (sample_point_legacy run s pv variables count) i bound w) =
      ?p # fst (data_loop (sample_point_legacy run s pv variables count) (Suc i) bound w')"
    by simp
  from a b c d show ?thesis by simp
qed

theorem C9_other_result_emits_bare_point_witness:
  "example_run (jsFormula (example_schema ''return `n/a`;'' [example_var ''x'' 0 10]
       [example_output ''y'']))
     ([''k'' \<mapsto> Finite 3](symbol_v (example_var ''x'' 0 10) \<mapsto> currentX (example_var ''x'' 0 10) 10 4)) 0
     = (Some (RString ''n/a''), 0) \<and>
   sample_point example_run
     (example_schema ''return `n/a`;'' [example_var ''x'' 0 10] [example_output ''y''])
     (example_var ''x'' 0 10) [example_output ''y''] [''k'' \<mapsto> Finite 3] 10 4 0
     = (Some ([''k'' \<mapsto> Finite 3, ''x'' \<mapsto> Finite 4]), 0)"
proof -
  let ?S = "example_schema ''return `n/a`;'' [example_var ''x'' 0 10] [example_output ''y'']"
  let ?pv = "example_var ''x'' 0 10"
  have h: "example_run (jsFormula ?S)
      ([''k'' \<mapsto> Finite 3](symbol_v ?pv \<mapsto> currentX ?pv 10 4)) 0 = (Some (RString ''n/a''), 0)"
    by (simp add: example_schema_def example_run_def)
  have x: "currentX ?pv 10 4 = Finite 4"
    by code_simp
  have sy: "symbol_v ?pv = ''x''"
    by (simp add: example_var_def)
  from C9_other_result_emits_bare_point [where run = example_run and s = ?S and pv = ?pv
      and variables = "[''k'' \<mapsto> Finite 3]" and count = 10 and i = 4 and w = 0
      and outs = "[example_output ''y'']" and bound = 10, OF h]
  have "sample_point example_run ?S ?pv [example_output ''y''] [''k'' \<mapsto> Finite 3] 10 4 0
     = (Some ([''k'' \<mapsto> Finite 3](symbol_v ?pv \<mapsto> currentX ?pv 10 4)), 0)"
    by simp
  with h x sy show ?thesis by simp
qed

lemma sample_point_number:
  assumes "run (jsFormula s) (variables(symbol_v pv \<mapsto> currentX pv count i)) w = (Some (RNumber r), w')"
  shows "sample_point run s pv outs variables count i w =
           (Some (variables(symbol_v pv \<mapsto> currentX pv count i,
                            first_symbol outs \<mapsto> parseFloat_toFixed 4 r)), w')"
  using assms by (simp add: sample_point_def point_eq_contextVars)






section \<open>Rounding\<close>

lemma round_decimals_of_int: "round_decimals d (of_int z) = of_int z"
proof -
  have half: "\<lfloor>of_int n + (1 / 2 :: rat)\<rfloor> = n" for n
    by (rule floor_unique) simp_all
  have "\<bar>of_int z :: rat\<bar> * 10 ^ d + 1 / 2 = of_int (\<bar>z\<bar> * 10 ^ d) + 1 / 2"
    by simp
  then have "\<lfloor>\<bar>of_int z :: rat\<bar> * 10 ^ d + 1 / 2\<rfloor> = \<bar>z\<bar> * 10 ^ d"
    by (simp only: half)
  then have "round_decimals d (of_int z) = sgn (of_int z) * (of_int \<bar>z\<bar> * 10 ^ d) / 10 ^ d"
    by (simp add: round_decimals_def)
  also have "\<dots> = sgn (of_int z :: rat) * of_int \<bar>z\<bar>"
    by simp
  also have "\<dots> = of_int z"
    by (simp add: sgn_if)
  finally show ?thesis .
qed

lemma parseFloat_toFixed_of_int:
  "parseFloat_toFixed d (Finite (of_int z)) = Finite (of_int z)"
  by (simp add: fixed_value_def round_decimals_of_int)











section \<open>The sampling loop: values and order\<close>

lemma data_loop_all_succeed:
  assumes ok: "\<And>k v. fst (body k v) = Some (g k)"
  shows "fst (data_loop body i count w) = map g [i..<Suc count]"
proof (induction "Suc count - i" arbitrary: i w)
  case 0
  then have "\<not> i \<le> count" by simp
  then show ?case by (simp add: data_loop_stop)
next
  case (Suc k)
  from Suc.hyps(2) have le: "i \<le> count" and k: "k = Suc count - Suc i" by simp_all
  have ih: "fst (data_loop body (Suc i) count v) = map g [Suc i..<Suc count]" for v
    using k by (rule Suc.hyps(1))
  from le have upt: "[i..<Suc count] = i # [Suc i..<Suc count]"
    by (simp add: upt_conv_Cons del: upt_Suc)
  from ok [of i w] have "body i w = (Some (g i), snd (body i w))"
    by (cases "body i w") simp
  from data_loop_push [where body = body and w = w, OF le this] ih
  show ?case unfolding upt by simp
qed








lemma generateDataset_none:
  "schema = None \<or> (\<exists>s. schema = Some s \<and>
      (independentVariables s = None \<or> independentVariables s = Some [])) \<Longrightarrow>
   fst (generateDataset run schema currentVars count w) = None"
  by (auto simp: generateDataset_def)







section \<open>Intersections\<close>

text \<open>The sweep of the two-lines example visits the integers.\<close>

lemma currentX_unit_steps:
  assumes "min_v pv = Some (Finite 0)" and "max_v pv = Some (Finite 10)"
  shows "currentX pv 10 k = Finite (of_nat k)"
proof -
  have "step pv 10 = Finite 1"
    using assms by (simp add: step_def minVal_def maxVal_def js_sub_def)
  then have "currentX pv 10 k = parseFloat_toFixed 2 (Finite (of_int (int k)))"
    using assms by (simp add: currentX_def minVal_def)
  then show ?thesis
    by (simp only: parseFloat_toFixed_of_int) simp
qed

lemma lines_sample_point:
  assumes sym: "symbol_v pv = ''x''"
    and lo: "min_v pv = Some (Finite 0)" and hi: "max_v pv = Some (Finite 10)"
    and formula: "\<forall>binding x v. binding ''x'' = Some x \<longrightarrow>
        fst (run (jsFormula s) binding v) =
          Some (RObject [(''A'', Some (js_mul (Finite 2) x)),
                         (''B'', Some (js_add (js_mul (Finite (- 2)) x) (Finite 10)))])"
  shows "fst (sample_point run s pv outs variables 10 k v) = Some (lines_point variables k)"
proof -
  let ?ctx = "variables(''x'' \<mapsto> Finite (of_nat k))"
  have x: "currentX pv 10 k = Finite (of_nat k)"
    using lo hi by (rule currentX_unit_steps)
  obtain r u where b: "run (jsFormula s) ?ctx v = (r, u)"
    by (cases "run (jsFormula s) ?ctx v")
  have "fst (run (jsFormula s) ?ctx v) =
      Some (RObject [(''A'', Some (js_mul (Finite 2) (Finite (of_nat k)))),
                     (''B'', Some (js_add (js_mul (Finite (- 2)) (Finite (of_nat k))) (Finite 10)))])"
    using formula by simp
  with b have r: "r = Some (RObject [(''A'', Some (Finite (of_int (2 * int k)))),
                     (''B'', Some (Finite (of_int (10 - 2 * int k))))])"
    by simp
  have "fst (sample_point run s pv outs variables 10 k v) =
      Some (?ctx(''A'' \<mapsto> parseFloat_toFixed 4 (Finite (of_int (2 * int k))),
                 ''B'' \<mapsto> parseFloat_toFixed 4 (Finite (of_int (10 - 2 * int k)))))"
    using b r by (simp add: sample_point_def sym x point_eq_contextVars del: of_int_mult of_int_diff)
  then show ?thesis
    by (simp only: parseFloat_toFixed_of_int) (simp add: lines_point_def)
qed


lemma lines_get:
  "js_get (lines_point variables k) ''x'' = Finite (of_nat k)"
  "js_get (lines_point variables k) ''A'' = Finite (2 * of_nat k)"
  "js_get (lines_point variables k) ''B'' = Finite (10 - 2 * of_nat k)"
  by (simp_all add: lines_point_def js_get_def)

text \<open>Segment \<open>k\<close> of the two lines: the difference goes from \<open>4k - 10\<close> to \<open>4k - 6\<close>.\<close>

lemma lines_segment:
  "segment_marker ''x'' ''A'' ''B'' (lines_point variables k) (lines_point variables (Suc k)) =
     (if k = 2 then Some \<lparr>x_m = Finite (5 / 2), y_m = Finite 5, label_m = ''Cruce'',
                            color_m = ''#EF4444''\<rparr>
      else None)"
proof (cases "k = 2")
  case True
  have "\<lfloor>501 / 2 :: rat\<rfloor> = 250"
    by (rule floor_unique) simp_all
  then have "fixed_value 2 (5 / 2) = 5 / 2"
    by (simp add: fixed_value_def toFixed_limit_def round_decimals_def)
  moreover have "fixed_value 2 5 = 5"
    using round_decimals_of_int [of 2 5] by (simp add: fixed_value_def)
  ultimately show ?thesis
    using True
    by (simp add: segment_marker_def lines_get isNaN_def js_sub_def js_strict_neq_def)
next
  case False
  then consider "k < 2" | "2 < k" by linarith
  then have "sgn (4 * rat_of_nat k - 10) = sgn (4 * rat_of_nat k - 6)"
  proof cases
    case 1
    then have "k = 0 \<or> k = 1" by linarith
    then show ?thesis by auto
  next
    case 2
    then have "3 \<le> rat_of_nat k"
      by (metis Suc_leI eval_nat_numeral(3) of_nat_le_iff of_nat_numeral)
    then have "0 < 4 * rat_of_nat k - 10" and "0 < 4 * rat_of_nat k - 6" by linarith+
    then show ?thesis by simp
  qed
  then have "\<not> js_strict_neq
      (js_sign (js_sub (Finite (2 * rat_of_nat k)) (Finite (10 - 2 * rat_of_nat k))))
      (js_sign (js_sub (Finite (2 * rat_of_nat (Suc k))) (Finite (10 - 2 * rat_of_nat (Suc k)))))"
    by (simp add: js_sub_def js_strict_neq_def algebra_simps)
  with False show ?thesis
    by (simp add: segment_marker_def lines_get Let_def del: of_nat_Suc)
qed

lemma segment_loop_upt:
  "segment_loop ps a b (map g [i..<Suc n]) =
     concat (map (\<lambda>k. case segment_marker ps a b (g k) (g (Suc k)) of
                         None \<Rightarrow> []
                       | Some m \<Rightarrow> [m]) [i..<n])"
proof (induction "n - i" arbitrary: i)
  case 0
  then have "n \<le> i" by simp
  then have "[i..<Suc n] = [] \<or> [i..<Suc n] = [n]"
    by (cases "i = n") (simp_all del: upt_Suc add: upt_conv_Cons)
  moreover from \<open>n \<le> i\<close> have "[i..<n] = []" by simp
  ultimately show ?case by (auto simp del: upt_Suc)
next
  case (Suc d)
  from Suc.hyps(2) have lt: "i < n" and d: "d = n - Suc i" by simp_all
  from d have ih: "segment_loop ps a b (map g [Suc i..<Suc n]) =
     concat (map (\<lambda>k. case segment_marker ps a b (g k) (g (Suc k)) of
                         None \<Rightarrow> []
                       | Some m \<Rightarrow> [m]) [Suc i..<n])"
    by (rule Suc.hyps(1))
  from lt have u1: "[i..<Suc n] = i # [Suc i..<Suc n]"
    and u2: "[Suc i..<Suc n] = Suc i # [Suc (Suc i)..<Suc n]"
    and u3: "[i..<n] = i # [Suc i..<n]"
    by (simp_all add: upt_conv_Cons del: upt_Suc)
  have "segment_loop ps a b (map g [i..<Suc n]) =
      (case segment_marker ps a b (g i) (g (Suc i)) of None \<Rightarrow> [] | Some m \<Rightarrow> [m])
      @ segment_loop ps a b (map g [Suc i..<Suc n])"
    unfolding u1 by (subst u2)+ (simp del: upt_Suc)
  with ih show ?case
    unfolding u3 by (simp del: upt_Suc)
qed

lemma lines_segment_loop:
  "segment_loop ''x'' ''A'' ''B'' (map (lines_point variables) [0..<11]) =
     [\<lparr>x_m = Finite (5 / 2), y_m = Finite 5, label_m = ''Cruce'', color_m = ''#EF4444''\<rparr>]"
proof -
  have "[0..<10] = [0, 1, 2, 3, 4, 5, 6, 7, 8, 9 :: nat]"
    by code_simp
  moreover have "(11 :: nat) = Suc 10"
    by simp
  ultimately show ?thesis
    by (simp only: segment_loop_upt lines_segment) simp
qed

text \<open>
  C1. For a schema whose primary variable \<open>x\<close> runs from 0 to 10, with the two outputs
  \<open>A\<close> and \<open>B\<close> both visible and a formula returning \<open>{A: 2*x, B: -2*x+10}\<close>, at
  resolution 10 the intersection pass emits exactly one marker, at \<open>x = 2.5\<close>,
  \<open>y = 5\<close>. All values of this run are small multiples of \<open>1/2\<close>, which binary64
  arithmetic computes exactly.
\<close>

theorem C1_two_lines_cross_once:
  assumes iv: "independentVariables s = Some (pv # rest)"
    and sym: "symbol_v pv = ''x''"
    and lo: "min_v pv = Some (Finite 0)" and hi: "max_v pv = Some (Finite 10)"
    and outs: "outputs s = Some [lineA, lineB]"
    and symA: "symbol_o lineA = ''A''" and symB: "symbol_o lineB = ''B''"
    and formula: "\<forall>binding x v. binding ''x'' = Some x \<longrightarrow>
        fst (run (jsFormula s) binding v) =
          Some (RObject [(''A'', Some (js_mul (Finite 2) x)),
                         (''B'', Some (js_add (js_mul (Finite (- 2)) x) (Finite 10)))])"
    and visible: "''A'' \<notin> hiddenLines" "''B'' \<notin> hiddenLines"
  shows "snd (fst (UniversalSimulator run (Some s) variables 10 hiddenLines w)) =
     [\<lparr>x_m = Finite (5 / 2), y_m = Finite 5, label_m = ''Cruce'', color_m = ''#EF4444''\<rparr>]"
proof -
  have n: "safeDataCount 10 = 10" "nat 10 = Suc 10 - 1"
    by (simp_all add: safeDataCount_def)
  have os: "outs_of s = [lineA, lineB]"
    using outs by (simp add: outs_of_def)
  have "fst (sample_point run s pv (outs_of s) variables 10 k v) = Some (lines_point variables k)"
    for k v
    using sym lo hi formula by (rule lines_sample_point)
  then have data: "fst (data_loop (sample_point run s pv (outs_of s) variables 10) 0 10 w) =
      map (lines_point variables) [0..<Suc 10]"
    by (rule data_loop_all_succeed)
  have "map (lines_point variables) [0..<Suc 10] \<noteq> []"
    by (simp del: upt_Suc)
  moreover have "activeOutputs [lineA, lineB] hiddenLines = [lineA, lineB]"
    using visible symA symB by (simp add: activeOutputs_def)
  ultimately have "intersections (map (lines_point variables) [0..<Suc 10]) [lineA, lineB]
      hiddenLines (Some pv) =
      segment_loop ''x'' ''A'' ''B'' (map (lines_point variables) [0..<Suc 10])"
    by (simp add: intersections_def sym symA symB del: upt_Suc)
  then show ?thesis
    using data os
    by (simp add: UniversalSimulator_def generatedData_primary [OF iv] safeDataCount_def
          lines_segment_loop del: upt_Suc)
qed

theorem C1_two_lines_cross_once_witness:
  "snd (fst (UniversalSimulator example_run
     (Some (example_schema ''return {A: 2*x, B: -2*x+10};'' [example_var ''x'' 0 10]
        [example_output ''A'', example_output ''B''])) [''x'' \<mapsto> Finite 0] 10 {} 0)) =
   [\<lparr>x_m = Finite (5 / 2), y_m = Finite 5, label_m = ''Cruce'', color_m = ''#EF4444''\<rparr>]"
proof -
  let ?pv = "example_var ''x'' 0 10"
  let ?S = "example_schema ''return {A: 2*x, B: -2*x+10};'' [?pv]
    [example_output ''A'', example_output ''B'']"
  have iv: "independentVariables ?S = Some (?pv # [])"
    and outs: "outputs ?S = Some [example_output ''A'', example_output ''B'']"
    by (simp_all add: example_schema_def)
  have sym: "symbol_v ?pv = ''x''"
    and lo: "min_v ?pv = Some (Finite 0)" and hi: "max_v ?pv = Some (Finite 10)"
    by (simp_all add: example_var_def)
  have symA: "symbol_o (example_output ''A'') = ''A''"
    and symB: "symbol_o (example_output ''B'') = ''B''"
    by (simp_all add: example_output_def)
  have formula: "\<forall>binding x v. binding ''x'' = Some x \<longrightarrow>
        fst (example_run (jsFormula ?S) binding v) =
          Some (RObject [(''A'', Some (js_mul (Finite 2) x)),
                         (''B'', Some (js_add (js_mul (Finite (- 2)) x) (Finite 10)))])"
    by (simp add: example_schema_def example_run_def)
  have visible: "''A'' \<notin> ({} :: string set)" "''B'' \<notin> ({} :: string set)"
    by simp_all
  show ?thesis
    using iv sym lo hi outs symA symB formula visible
    by (rule C1_two_lines_cross_once [where run = example_run])
qed







section \<open>Schema ingestion: results\<close>

lemma includes_return_0: "includes_str ''return 0;'' ''return''"
  by simp

text \<open>
  C5 (as stated, refuted). The claim says that a formula body lacking an explicit return
  is replaced by the fallback \<open>"return 0;"\<close>. The body \<open>2*x\<close> has no return, and
  ingestion turns it into \<open>return 2*x\<close>, not into the fallback.
\<close>

theorem C5_formula_without_return_counterexample:
  "\<not> includes_str ''2*x'' ''return'' \<and>
   validate_jsFormula (Some ''2*x'') = ''return 2*x'' \<and>
   validate_jsFormula (Some ''2*x'') \<noteq> ''return 0;''"
  by (simp add: validate_jsFormula_def)

lemma sample_point_zero:
  assumes "\<forall>binding v. fst (run (jsFormula s) binding v) = Some (RNumber (Finite 0))"
  shows "fst (sample_point run s pv outs variables count i w) =
     Some (variables(symbol_v pv \<mapsto> currentX pv count i, first_symbol outs \<mapsto> Finite 0))"
proof -
  let ?ctx = "variables(symbol_v pv \<mapsto> currentX pv count i)"
  obtain r u where b: "run (jsFormula s) ?ctx w = (r, u)"
    by (cases "run (jsFormula s) ?ctx w")
  with assms have "r = Some (RNumber (Finite 0))"
    by (metis fst_conv)
  with b have "run (jsFormula s) ?ctx w = (Some (RNumber (Finite 0)), u)" by simp
  then have "sample_point run s pv outs variables count i w =
      (Some (?ctx(first_symbol outs \<mapsto> parseFloat_toFixed 4 (Finite 0))), u)"
    by (rule sample_point_number [where run = run])
  moreover have "parseFloat_toFixed 4 (Finite 0) = Finite 0"
    using parseFloat_toFixed_of_int [of 4 0] by simp
  ultimately show ?thesis by simp
qed

text \<open>
  C5 (amended). A missing or empty formula body is replaced by \<open>"return 0;"\<close>, and every
  sample of a schema ingested so evaluates to 0 (the dataset has all its points, each
  with 0 in the column of the first output). A non-empty body in which the word
  \<open>return\<close> does not occur is kept and prefixed with \<open>"return "\<close>, and a body in which
  it occurs is left as it is.
\<close>

theorem C5_formula_fallback:
  "(f = None \<or> f = Some [] \<longrightarrow> validate_jsFormula f = ''return 0;'') \<and>
   (\<forall>body. f = Some body \<and> body \<noteq> [] \<and> \<not> includes_str body ''return'' \<longrightarrow>
        validate_jsFormula f = ''return '' @ body) \<and>
   (\<forall>body. f = Some body \<and> includes_str body ''return'' \<longrightarrow> validate_jsFormula f = body) \<and>
   (\<forall>s pv rest.
      (f = None \<or> f = Some []) \<and> jsFormula s = validate_jsFormula f \<and>
      independentVariables s = Some (pv # rest) \<and>
      (\<forall>binding v. fst (run ''return 0;'' binding v) = Some (RNumber (Finite 0))) \<longrightarrow>
        fst (fst (generatedData run (Some s) variables dataCount w)) =
          map (\<lambda>i. variables(symbol_v pv \<mapsto> currentX pv (safeDataCount dataCount) i,
                              first_symbol (outs_of s) \<mapsto> Finite 0))
              [0..<Suc (nat (safeDataCount dataCount))])"
proof (intro conjI allI impI)
  assume "f = None \<or> f = Some []"
  then show "validate_jsFormula f = ''return 0;''"
    using includes_return_0 by (auto simp: validate_jsFormula_def)
next
  fix body
  assume "f = Some body \<and> body \<noteq> [] \<and> \<not> includes_str body ''return''"
  then show "validate_jsFormula f = ''return '' @ body"
    by (simp add: validate_jsFormula_def)
next
  fix body
  assume "f = Some body \<and> includes_str body ''return''"
  then show "validate_jsFormula f = body"
    using includes_return_0 by (cases "body = []") (simp_all add: validate_jsFormula_def)
next
  fix s :: SimulationSchema and pv rest
  assume h: "(f = None \<or> f = Some []) \<and> jsFormula s = validate_jsFormula f \<and>
      independentVariables s = Some (pv # rest) \<and>
      (\<forall>binding v. fst (run ''return 0;'' binding v) = Some (RNumber (Finite 0)))"
  then have "validate_jsFormula f = ''return 0;''"
    using includes_return_0 by (auto simp: validate_jsFormula_def)
  with h have zero: "\<forall>binding v. fst (run (jsFormula s) binding v) = Some (RNumber (Finite 0))"
    by simp
  from h have iv: "independentVariables s = Some (pv # rest)" by simp
  let ?g = "\<lambda>i. variables(symbol_v pv \<mapsto> currentX pv (safeDataCount dataCount) i,
                              first_symbol (outs_of s) \<mapsto> Finite 0)"
  have "fst (sample_point run s pv (outs_of s) variables (safeDataCount dataCount) k v) =
      Some (?g k)" for k v
    using zero by (rule sample_point_zero)
  then have "fst (data_loop (sample_point run s pv (outs_of s) variables (safeDataCount dataCount))
      0 (nat (safeDataCount dataCount)) w) = map ?g [0..<Suc (nat (safeDataCount dataCount))]"
    by (rule data_loop_all_succeed)
  then show "fst (fst (generatedData run (Some s) variables dataCount w)) =
      map ?g [0..<Suc (nat (safeDataCount dataCount))]"
    by (simp add: generatedData_primary [OF iv] del: upt_Suc)
qed

theorem C5_formula_fallback_witness:
  "validate_jsFormula None = ''return 0;'' \<and>
   validate_jsFormula (Some ''x + 1'') = ''return x + 1'' \<and>
   validate_jsFormula (Some ''return x;'') = ''return x;'' \<and>
   fst (fst (generatedData example_run
     (Some (example_schema (validate_jsFormula None) [example_var ''t'' 0 20]
        [example_output ''y''])) [''t'' \<mapsto> Finite 0] 2 0)) =
     map (\<lambda>i. [''t'' \<mapsto> Finite 0]
            (symbol_v (example_var ''t'' 0 20) \<mapsto>
               currentX (example_var ''t'' 0 20) (safeDataCount 2) i,
             first_symbol (outs_of (example_schema (validate_jsFormula None)
               [example_var ''t'' 0 20] [example_output ''y''])) \<mapsto> Finite 0))
         [0..<Suc (nat (safeDataCount 2))]"
proof -
  let ?pv = "example_var ''t'' 0 20"
  let ?S = "example_schema (validate_jsFormula None) [?pv] [example_output ''y'']"
  have a: "validate_jsFormula None = ''return 0;''"
    using C5_formula_fallback [of None example_run "[''t'' \<mapsto> Finite 0]" 2 0] by blast
  have "''x + 1'' \<noteq> [] \<and> \<not> includes_str ''x + 1'' ''return''"
    by simp
  with C5_formula_fallback [of "Some ''x + 1''" example_run "[''t'' \<mapsto> Finite 0]" 2 0]
  have b: "validate_jsFormula (Some ''x + 1'') = ''return x + 1''"
    by simp
  have "includes_str ''return x;'' ''return''"
    by simp
  with C5_formula_fallback [of "Some ''return x;''" example_run "[''t'' \<mapsto> Finite 0]" 2 0]
  have c: "validate_jsFormula (Some ''return x;'') = ''return x;''"
    by blast
  have h: "jsFormula ?S = validate_jsFormula None"
    and iv: "independentVariables ?S = Some (?pv # [])"
    by (simp_all add: example_schema_def)
  have z: "\<forall>binding v. fst (example_run ''return 0;'' binding v) = Some (RNumber (Finite 0))"
    by (simp add: example_run_def)
  from C5_formula_fallback [of None example_run "[''t'' \<mapsto> Finite 0]" 2 0] h iv z
  have d: "fst (fst (generatedData example_run (Some ?S) [''t'' \<mapsto> Finite 0] 2 0)) =
     map (\<lambda>i. [''t'' \<mapsto> Finite 0]
            (symbol_v ?pv \<mapsto> currentX ?pv (safeDataCount 2) i,
             first_symbol (outs_of ?S) \<mapsto> Finite 0))
         [0..<Suc (nat (safeDataCount 2))]"
    by blast
  from a b c d show ?thesis by simp
qed

end
